theory Spec2Isabelle
  imports Complex_Main
begin

section \<open>Codigo/Simulacion.py: Metropolis simulation of the 2D Ising model\<close>

text \<open>
  The module's functions read the module-level constants \<open>N\<close>, \<open>long_lado\<close>, \<open>J\<close>,
  \<open>cant_iter\<close>, \<open>t_estable\<close>, \<open>cant_Temp\<close> and \<open>tiempo_sim\<close>. They are collected in
  the record \<open>params\<close>, which every function takes as its first argument; \<open>simulacion\<close>
  below holds the values the module assigns.

  Python integers are \<open>int\<close>. NumPy's \<open>float64\<close> values are idealised as \<open>real\<close>: sums of
  spins and of bond terms are computed exactly, and rounding is outside the model.
  Where NumPy would produce \<open>inf\<close> or \<open>nan\<close> (a division by zero, the mean of an empty
  slice), values that \<open>real\<close> does not have, the model stops with an error.
\<close>

datatype error = IndexError | ValueError | ZeroDivisionError | NonFinite

record params =
  N :: int
  long_lado :: int
  J :: real
  cant_iter :: int
  t_estable :: int
  cant_Temp :: int
  tiempo_sim :: "int list"

definition bind_err :: "error + 'a \<Rightarrow> ('a \<Rightarrow> error + 'b) \<Rightarrow> error + 'b" where
  "bind_err m f = (case m of Inl e \<Rightarrow> Inl e | Inr x \<Rightarrow> f x)"

text \<open>A \<open>for\<close> loop over a sequence; an exception raised by the body ends the loop.\<close>

fun for_loop :: "'a list \<Rightarrow> ('a \<Rightarrow> 's \<Rightarrow> error + 's) \<Rightarrow> 's \<Rightarrow> error + 's" where
  "for_loop [] body st = Inr st"
| "for_loop (x # xs) body st = bind_err (body x st) (for_loop xs body)"

definition py_range :: "int \<Rightarrow> int \<Rightarrow> int list" where
  "py_range lo hi = map (\<lambda>k. lo + int k) [0..<nat (hi - lo)]"

text \<open>The slice \<open>xs[t:]\<close>: a negative \<open>t\<close> counts from the end, and the start is clipped.\<close>

definition py_slice_from :: "'a list \<Rightarrow> int \<Rightarrow> 'a list" where
  "py_slice_from xs t =
     (if t < 0 then drop (nat (max 0 (int (length xs) + t))) xs else drop (nat t) xs)"

subsection \<open>NumPy arrays\<close>

text \<open>
  Indexing an axis of length \<open>n\<close> with the integer \<open>a\<close>: \<open>0 \<le> a < n\<close> is the position
  itself, \<open>-n \<le> a < 0\<close> counts from the end, anything else raises \<open>IndexError\<close>.
\<close>

definition np_index :: "nat \<Rightarrow> int \<Rightarrow> error + nat" where
  "np_index n a =
     (if 0 \<le> a \<and> a < int n then Inr (nat a)
      else if - int n \<le> a \<and> a < 0 then Inr (nat (a + int n))
      else Inl IndexError)"

text \<open>\<open>xs[a]\<close> and \<open>xs[a] = v\<close> on a one-dimensional array.\<close>

definition np_get :: "'a list \<Rightarrow> int \<Rightarrow> error + 'a" where
  "np_get xs a = bind_err (np_index (length xs) a) (\<lambda>k. Inr (xs ! k))"

definition np_set :: "'a list \<Rightarrow> int \<Rightarrow> 'a \<Rightarrow> error + 'a list" where
  "np_set xs a v = bind_err (np_index (length xs) a) (\<lambda>k. Inr (xs[k := v]))"

text \<open>
  The lattice is a two-dimensional array, kept as the list of its rows;
  \<open>shape L s\<close> says that it is \<open>L \<times> L\<close>.
\<close>

type_synonym lattice = "real list list"

definition shape :: "nat \<Rightarrow> lattice \<Rightarrow> bool" where
  "shape L s \<longleftrightarrow> length s = L \<and> list_all (\<lambda>row. length row = L) s"

definition espines :: "lattice \<Rightarrow> bool" where
  "espines s \<longleftrightarrow> list_all (list_all (\<lambda>v. v = 1 \<or> v = - 1)) s"

definition np_get2 :: "lattice \<Rightarrow> int \<Rightarrow> int \<Rightarrow> error + real" where
  "np_get2 s a b =
     bind_err (np_index (length s) a) (\<lambda>r.
     bind_err (np_index (length (s ! r)) b) (\<lambda>k. Inr (s ! r ! k)))"

definition np_set2 :: "lattice \<Rightarrow> int \<Rightarrow> int \<Rightarrow> real \<Rightarrow> error + lattice" where
  "np_set2 s a b v =
     bind_err (np_index (length s) a) (\<lambda>r.
     bind_err (np_index (length (s ! r)) b) (\<lambda>k. Inr (s[r := (s ! r)[k := v]])))"

text \<open>\<open>xs[m] = v\<close> for a boolean mask \<open>m\<close> of the shape of \<open>xs\<close>.\<close>

definition mask_assign :: "'a list \<Rightarrow> bool list \<Rightarrow> 'a \<Rightarrow> 'a list" where
  "mask_assign xs m v = map (\<lambda>(x, b). if b then v else x) (zip xs m)"

definition np_ones :: "int \<Rightarrow> error + real list" where
  "np_ones n = (if n < 0 then Inl ValueError else Inr (replicate (nat n) 1))"

definition np_zeros :: "int \<Rightarrow> error + real list" where
  "np_zeros n = (if n < 0 then Inl ValueError else Inr (replicate (nat n) 0))"

text \<open>
  \<open>np.mean\<close>; of an empty array NumPy gives \<open>nan\<close>. The sum and the quotient are exact
  here, where NumPy rounds each to \<open>float64\<close>: the two agree when every partial sum and
  the quotient are \<open>float64\<close> values, and can differ in the last bit otherwise.
\<close>

definition np_mean :: "real list \<Rightarrow> error + real" where
  "np_mean xs = (if xs = [] then Inl NonFinite else Inr (sum_list xs / real (length xs)))"

definition np_linspace :: "real \<Rightarrow> real \<Rightarrow> int \<Rightarrow> error + real list" where
  "np_linspace start stop num =
     (if num < 0 then Inl ValueError
      else if num = 1 then Inr [start]
      else Inr (map (\<lambda>k. start + real k * ((stop - start) / real_of_int (num - 1)))
                  [0..<nat num]))"

subsection \<open>The random source\<close>

text \<open>
  \<open>np.random\<close> is one shared generator. Its outcomes are given in advance: the \<open>k\<close>-th
  integer draw is \<open>int_draws k\<close> reduced to the requested range, the \<open>k\<close>-th draw of
  \<open>uniform(0, 1)\<close> is \<open>unif_draws k\<close>; the two counters say how many draws were made.
  Every run of the program is the model's run on some pair of outcome sequences.
\<close>

record rng =
  int_draws :: "nat \<Rightarrow> nat"
  unif_draws :: "nat \<Rightarrow> real"
  int_pos :: nat
  unif_pos :: nat

definition randint :: "int \<Rightarrow> int \<Rightarrow> rng \<Rightarrow> error + int \<times> rng" where
  "randint low high g =
     (if high \<le> low then Inl ValueError
      else Inr (low + int (int_draws g (int_pos g)) mod (high - low),
                g\<lparr>int_pos := Suc (int_pos g)\<rparr>))"

definition uniform :: "rng \<Rightarrow> real \<times> rng" where
  "uniform g = (unif_draws g (unif_pos g), g\<lparr>unif_pos := Suc (unif_pos g)\<rparr>)"

text \<open>\<open>np.random.uniform(0, 1, (rows, cols))\<close>, filled row by row.\<close>

definition uniform_array :: "int \<Rightarrow> int \<Rightarrow> rng \<Rightarrow> error + lattice \<times> rng" where
  "uniform_array rows cols g =
     (if rows < 0 \<or> cols < 0 then Inl ValueError
      else Inr (map (\<lambda>r. map (\<lambda>q. unif_draws g (unif_pos g + r * nat cols + q))
                              [0..<nat cols]) [0..<nat rows],
                g\<lparr>unif_pos := unif_pos g + nat rows * nat cols\<rparr>))"

subsection \<open>gen_array_espines\<close>

definition gen_array_espines :: "params \<Rightarrow> rng \<Rightarrow> error + lattice \<times> rng" where
  "gen_array_espines c g =
     bind_err (uniform_array (long_lado c) (long_lado c) g) (\<lambda>(s, g').
       let ii = map (map (\<lambda>x. x < 0.5)) s;
           s = map (\<lambda>(row, m). mask_assign row m (- 1)) (zip s ii);
           s = map (\<lambda>(row, m). mask_assign row (map Not m) 1) (zip s ii)
       in Inr (s, g'))"

subsection \<open>pos_vecinos\<close>

definition pos_vecinos :: "params \<Rightarrow> int \<Rightarrow> int \<Rightarrow> int list" where
  "pos_vecinos c i j =
     (let pos = [i - 1, i + 1, j - 1, j + 1];
          ii_1 = map (\<lambda>x. x = - 1) pos;
          ii_2 = map (\<lambda>x. x = long_lado c) pos;
          pos = mask_assign pos ii_1 (long_lado c - 1);
          pos = mask_assign pos ii_2 0
      in pos)"

text \<open>The wraparound as the specification words it, applied to one index.\<close>

definition wrap_index :: "int \<Rightarrow> int \<Rightarrow> int" where
  "wrap_index L x = (if x = - 1 then L - 1 else if x = L then 0 else x)"

subsection \<open>var_termo\<close>

text \<open>The body of the inner loop, on the accumulators \<open>(E, M)\<close>.\<close>

definition var_termo_body ::
  "params \<Rightarrow> lattice \<Rightarrow> int \<Rightarrow> int \<Rightarrow> real \<times> real \<Rightarrow> error + real \<times> real" where
  "var_termo_body c s i j acc =
     (case acc of (E, M) \<Rightarrow>
        let pos = pos_vecinos c i j in
        bind_err (np_get2 s i j) (\<lambda>sij.
        bind_err (np_get2 s (pos ! 0) j) (\<lambda>s0.
        bind_err (np_get2 s (pos ! 1) j) (\<lambda>s1.
        bind_err (np_get2 s i (pos ! 2)) (\<lambda>s2.
        bind_err (np_get2 s i (pos ! 3)) (\<lambda>s3.
          Inr (E + - J c * sij * (s0 + s1 + s2 + s3), M + sij)))))))"

text \<open>
  \<open>M /= N\<close> with \<open>N = 0\<close>: when no cell was visited \<open>M\<close> is still the Python integer \<open>0\<close>
  and the division raises; otherwise \<open>M\<close> is a \<open>float64\<close> and the result is \<open>inf\<close> or \<open>nan\<close>.
\<close>

definition var_termo :: "params \<Rightarrow> lattice \<Rightarrow> error + real \<times> real" where
  "var_termo c s =
     bind_err (for_loop (py_range 0 (long_lado c))
                 (\<lambda>i. for_loop (py_range 0 (long_lado c)) (\<lambda>j. var_termo_body c s i j))
                 (0, 0)) (\<lambda>(E, M).
       let E = E / 2 in
       if N c = 0 then Inl (if long_lado c \<le> 0 then ZeroDivisionError else NonFinite)
       else Inr (E, M / real_of_int (N c)))"

text \<open>The term that the loop adds to \<open>E\<close> at the cell \<open>(i, j)\<close> of an \<open>L \<times> L\<close> lattice.\<close>

definition bond :: "real \<Rightarrow> nat \<Rightarrow> lattice \<Rightarrow> nat \<Rightarrow> nat \<Rightarrow> real" where
  "bond Jc L s i j = - Jc * (s ! i ! j) *
          (s ! ((i + L - 1) mod L) ! j + s ! ((i + 1) mod L) ! j +
           s ! i ! ((j + L - 1) mod L) + s ! i ! ((j + 1) mod L))"

text \<open>
  The Thermodynamic Evaluator as the specification words it: the sum over all cells of
  \<open>-J s(i,j)\<close> times the four periodic neighbours, halved, and the mean spin.
\<close>

definition energia :: "real \<Rightarrow> nat \<Rightarrow> lattice \<Rightarrow> real" where
  "energia Jc L s =
     (\<Sum>i = 0..<L. \<Sum>j = 0..<L.
        - Jc * (s ! i ! j) *
          (s ! ((i + L - 1) mod L) ! j + s ! ((i + 1) mod L) ! j +
           s ! i ! ((j + L - 1) mod L) + s ! i ! ((j + 1) mod L))) / 2"

definition suma_espines :: "nat \<Rightarrow> lattice \<Rightarrow> real" where
  "suma_espines L s = (\<Sum>i = 0..<L. \<Sum>j = 0..<L. s ! i ! j)"

subsection \<open>cambio_espin\<close>

text \<open>
  The step returns the pair \<open>(E_f, M_0)\<close> together with the lattice, which the source
  mutates in place, and the random source.
\<close>

definition cambio_espin ::
  "params \<Rightarrow> lattice \<Rightarrow> real \<Rightarrow> rng \<Rightarrow> error + (real \<times> real) \<times> lattice \<times> rng" where
  "cambio_espin c s beta g =
     bind_err (randint 0 (long_lado c) g) (\<lambda>(pos_x, g).
     bind_err (randint 0 (long_lado c) g) (\<lambda>(pos_y, g).
     bind_err (var_termo c s) (\<lambda>(E_0, M_0).
     bind_err (np_get2 s pos_x pos_y) (\<lambda>v.
     bind_err (np_set2 s pos_x pos_y (- v)) (\<lambda>s.
     bind_err (var_termo c s) (\<lambda>(E_f, M_f).
       let Delta_E = E_f - E_0 in
       if Delta_E > 0 then
         (case uniform g of (p, g) \<Rightarrow>
            if p \<ge> exp (- beta * Delta_E) then
              bind_err (np_get2 s pos_x pos_y) (\<lambda>v.
              bind_err (np_set2 s pos_x pos_y (- v)) (\<lambda>s.
                Inr ((E_f, M_0), s, g)))
            else Inr ((E_f, M_0), s, g))
       else Inr ((E_f, M_0), s, g)))))))"

text \<open>
  The cell that a step selects from the random source \<open>g\<close>, its next two integer draws
  reduced to \<open>[0, long_lado)\<close>; the lattice with the cell \<open>(x, y)\<close> negated; and the
  acceptance draw, the next draw of \<open>uniform(0, 1)\<close>.
\<close>

definition sitio :: "params \<Rightarrow> rng \<Rightarrow> nat \<times> nat" where
  "sitio c g =
     (int_draws g (int_pos g) mod nat (long_lado c),
      int_draws g (Suc (int_pos g)) mod nat (long_lado c))"

definition flip :: "lattice \<Rightarrow> nat \<times> nat \<Rightarrow> lattice" where
  "flip s xy = (case xy of (x, y) \<Rightarrow> s[x := (s ! x)[y := - (s ! x ! y)]])"

definition sorteo :: "rng \<Rightarrow> real" where
  "sorteo g = unif_draws g (unif_pos g)"

subsection \<open>evolucion\<close>

text \<open>The loop's state: the lattice, the random source and the two output arrays.\<close>

definition evolucion_body ::
  "params \<Rightarrow> real \<Rightarrow> int \<Rightarrow> lattice \<times> rng \<times> real list \<times> real list \<Rightarrow>
     error + lattice \<times> rng \<times> real list \<times> real list" where
  "evolucion_body c beta i st =
     (case st of (s, g, array_E, array_M) \<Rightarrow>
        bind_err (cambio_espin c s beta g) (\<lambda>((E_f, M_f), s, g).
        bind_err (np_set array_E i E_f) (\<lambda>array_E.
        bind_err (np_set array_M i M_f) (\<lambda>array_M.
          Inr (s, g, array_E, array_M)))))"

definition evolucion ::
  "params \<Rightarrow> int list \<Rightarrow> real \<Rightarrow> lattice \<Rightarrow> rng \<Rightarrow>
     error + (real list \<times> real list) \<times> lattice \<times> rng" where
  "evolucion c tiempo beta s g =
     bind_err (var_termo c s) (\<lambda>(E_0, M_0).
     bind_err (np_ones (cant_iter c)) (\<lambda>array_E.
     bind_err (np_ones (cant_iter c)) (\<lambda>array_M.
     bind_err (np_set array_E 0 E_0) (\<lambda>array_E.
     bind_err (np_set array_M 0 M_0) (\<lambda>array_M.
     bind_err (for_loop (py_slice_from tiempo 1) (evolucion_body c beta)
                 (s, g, array_E, array_M)) (\<lambda>(s, g, array_E, array_M).
       Inr ((array_E, array_M), s, g)))))))"

text \<open>
  What the Evolution Driver is to do, in the specification's words: one Metropolis step
  for each time index, its pair recorded at the position that the index designates.
  \<open>escrituras\<close> runs the steps alone and lists each index with the pair of its step;
  \<open>posicion n i\<close> is the position that the index \<open>i\<close> designates in an array of length
  \<open>n\<close> (a negative index counts from the end); \<open>anotar\<close> writes a list of indexed
  values into an array in order.
\<close>

fun escrituras ::
  "params \<Rightarrow> real \<Rightarrow> int list \<Rightarrow> lattice \<Rightarrow> rng \<Rightarrow>
     error + (int \<times> real \<times> real) list \<times> lattice \<times> rng" where
  "escrituras c beta [] s g = Inr ([], s, g)"
| "escrituras c beta (i # rest) s g =
     bind_err (cambio_espin c s beta g) (\<lambda>(EM, s, g).
     bind_err (escrituras c beta rest s g) (\<lambda>(ws, s, g). Inr ((i, EM) # ws, s, g)))"

definition posicion :: "nat \<Rightarrow> int \<Rightarrow> nat" where
  "posicion n i = (if i < 0 then nat (i + int n) else nat i)"

definition anotar :: "(int \<times> real) list \<Rightarrow> real list \<Rightarrow> real list" where
  "anotar ws a = fold (\<lambda>(i, v) a. a[posicion (length a) i := v]) ws a"

subsection \<open>promedios\<close>

definition promedios :: "real list \<Rightarrow> real list \<Rightarrow> int \<Rightarrow> error + real \<times> real" where
  "promedios array_E array_M t =
     bind_err (np_mean (py_slice_from array_E t)) (\<lambda>E_prom.
     bind_err (np_mean (py_slice_from array_M t)) (\<lambda>M_prom.
       Inr (E_prom, M_prom)))"

text \<open>
  The arithmetic mean of a series from the position \<open>k\<close> to its end, and the position
  at which the cutoff \<open>t\<close> starts in a series of length \<open>n\<close> (a negative cutoff counts
  from the end and stops at the first entry).
\<close>

definition media :: "real list \<Rightarrow> nat \<Rightarrow> real" where
  "media xs k = (\<Sum>i = k..<length xs. xs ! i) / real (length xs - k)"

definition desde :: "nat \<Rightarrow> int \<Rightarrow> nat" where
  "desde n t = (if t < 0 then nat (max 0 (int n + t)) else nat t)"

subsection \<open>main\<close>

definition beta_critico :: "params \<Rightarrow> error + real" where
  "beta_critico c = (if 2 * J c = 0 then Inl NonFinite else Inr (arsinh 1 / (2 * J c)))"

definition T_critico :: "params \<Rightarrow> error + real" where
  "T_critico c =
     bind_err (beta_critico c) (\<lambda>b. if b = 0 then Inl NonFinite else Inr (1 / b))"

text \<open>
  The loop's state: the random source, the two arrays of averages, the counter \<open>j\<close> and
  the calls made to \<open>graficas_EyM\<close>, each with its arguments \<open>(array_E, array_M, T, j)\<close>.
  The plots themselves are not modelled. \<open>int(cant_Temp/4)\<close> is \<open>cant_Temp div 4\<close>
  whenever the loop runs, since \<open>cant_Temp\<close> is positive then.
\<close>

type_synonym main_state =
  "rng \<times> real list \<times> real list \<times> int \<times> (real list \<times> real list \<times> real \<times> int) list"

definition main_body ::
  "params \<Rightarrow> real list \<Rightarrow> real list \<Rightarrow> int \<Rightarrow> main_state \<Rightarrow> error + main_state" where
  "main_body c array_T array_betas i st =
     (case st of (g, array_E_prom, array_M_prom, j, graficas) \<Rightarrow>
        bind_err (np_get array_betas i) (\<lambda>beta.
        bind_err (gen_array_espines c g) (\<lambda>(s, g).
        bind_err (evolucion c (tiempo_sim c) beta s g) (\<lambda>((array_E, array_M), s, g).
        bind_err (if i = 0 \<or> i = cant_Temp c div 4 \<or> i = cant_Temp c - 1
                  then bind_err (np_get array_T i) (\<lambda>T.
                         Inr (j + 1, graficas @ [(array_E, array_M, T, j + 1)]))
                  else Inr (j, graficas)) (\<lambda>(j, graficas).
        bind_err (promedios array_E array_M (t_estable c)) (\<lambda>(E_prom, M_prom).
        bind_err (np_set array_E_prom i E_prom) (\<lambda>array_E_prom.
        bind_err (np_set array_M_prom i M_prom) (\<lambda>array_M_prom.
          Inr (g, array_E_prom, array_M_prom, j, graficas)))))))))"

text \<open>
  \<open>main\<close> returns \<open>0\<close>; the model returns what it computed: \<open>array_T\<close>, \<open>array_betas\<close>,
  \<open>array_E_prom\<close>, \<open>array_M_prom\<close>, the calls to \<open>graficas_EyM\<close> and the random source.
\<close>

definition main ::
  "params \<Rightarrow> rng \<Rightarrow>
     error + real list \<times> real list \<times> real list \<times> real list \<times>
             (real list \<times> real list \<times> real \<times> int) list \<times> rng" where
  "main c g =
     bind_err (T_critico c) (\<lambda>Tc.
     bind_err (np_linspace 0.01 3 (cant_Temp c)) (\<lambda>xs.
       let array_T = map (\<lambda>x. x * Tc) xs in
       if 0 \<in> set array_T then Inl NonFinite
       else
         let array_betas = map (\<lambda>T. 1 / T) array_T in
         bind_err (np_zeros (cant_Temp c)) (\<lambda>array_E_prom.
         bind_err (np_zeros (cant_Temp c)) (\<lambda>array_M_prom.
         bind_err (for_loop (py_range 0 (cant_Temp c)) (main_body c array_T array_betas)
                     (g, array_E_prom, array_M_prom, 0, []))
           (\<lambda>(g, array_E_prom, array_M_prom, j, graficas).
              Inr (array_T, array_betas, array_E_prom, array_M_prom, graficas, g))))))"

text \<open>
  What the Temperature Sweep Controller is to do, in the specification's words.
  \<open>muestra\<close> is the work on one sample: a fresh lattice, the Evolution Driver on it, the
  averages. \<open>muestras\<close> does it for a list of inverse temperatures from first to last,
  each sample drawing from the random source where the one before left it, and lists
  the pairs of averages.
\<close>

definition muestra :: "params \<Rightarrow> real \<Rightarrow> rng \<Rightarrow> error + (real \<times> real) \<times> rng" where
  "muestra c beta g =
     bind_err (gen_array_espines c g) (\<lambda>(s, g).
     bind_err (evolucion c (tiempo_sim c) beta s g) (\<lambda>((array_E, array_M), s, g).
     bind_err (promedios array_E array_M (t_estable c)) (\<lambda>EM. Inr (EM, g))))"

fun muestras :: "params \<Rightarrow> real list \<Rightarrow> rng \<Rightarrow> error + (real \<times> real) list \<times> rng" where
  "muestras c [] g = Inr ([], g)"
| "muestras c (beta # betas) g =
     bind_err (muestra c beta g) (\<lambda>(EM, g).
     bind_err (muestras c betas g) (\<lambda>(EMs, g). Inr (EM # EMs, g)))"

subsection \<open>The module's constants\<close>

definition simulacion :: params where
  "simulacion =
     \<lparr>N = 9 ^ 2, long_lado = \<lfloor>sqrt (real_of_int (9 ^ 2))\<rfloor>, J = 1, cant_iter = 8000,
      t_estable = 6000, cant_Temp = 100, tiempo_sim = py_range 0 8000\<rparr>"

text \<open>A random source all of whose integer draws are \<open>k\<close> and whose uniform draws are \<open>p\<close>.\<close>

definition dado :: "nat \<Rightarrow> real \<Rightarrow> rng" where
  "dado k p = \<lparr>int_draws = (\<lambda>_. k), unif_draws = (\<lambda>_. p), int_pos = 0, unif_pos = 0\<rparr>"

text \<open>The module's constants, with a lattice of one cell and \<open>n\<close> iterations.\<close>

definition una_celda :: "int \<Rightarrow> params" where
  "una_celda n = simulacion\<lparr>N := 1, long_lado := 1, cant_iter := n\<rparr>"

text \<open>The module's constants, with one cell, two iterations and two temperatures.\<close>

definition barrido :: params where
  "barrido =
     simulacion\<lparr>N := 1, long_lado := 1, cant_iter := 2, t_estable := 1, cant_Temp := 2,
       tiempo_sim := py_range 0 2\<rparr>"

section \<open>Properties\<close>

subsection \<open>Errors and iteration\<close>

lemma bind_err_Inl [simp]: "bind_err (Inl e) f = Inl e"
  by (simp add: bind_err_def)

lemma bind_err_Inr [simp]: "bind_err (Inr x) f = f x"
  by (simp add: bind_err_def)

subsection \<open>The module's constants\<close>

lemma long_lado_simulacion: "long_lado simulacion = 9"
proof -
  have "sqrt ((9::real) ^ 2) = 9" by (simp add: real_sqrt_abs)
  then show ?thesis by (simp add: simulacion_def)
qed

lemma N_simulacion: "N simulacion = 81"
  by (simp add: simulacion_def)

lemma J_simulacion: "J simulacion = 1"
  by (simp add: simulacion_def)

lemma espines_replicate: "espines (replicate L (replicate L 1))"
  by (simp add: espines_def list_all_iff)

subsection \<open>pos_vecinos\<close>

lemma pos_vecinos_eq:
  "pos_vecinos c i j =
     (let L = long_lado c; w = (\<lambda>x. if x = L then 0 else if x = - 1 then L - 1 else x)
      in [w (i - 1), w (i + 1), w (j - 1), w (j + 1)])"
  by (simp add: pos_vecinos_def mask_assign_def Let_def)

text \<open>
  C4. For \<open>0 \<le> i, j < L\<close> the Neighbor Resolver returns \<open>i-1, i+1, j-1, j+1\<close> with
  \<open>-1\<close> replaced by \<open>L-1\<close> and \<open>L\<close> replaced by \<open>0\<close>. For \<open>L = 9\<close> it returns
  \<open>(8, 1, 8, 1)\<close> at \<open>(0, 0)\<close> and \<open>(7, 0, 7, 0)\<close> at \<open>(8, 8)\<close>; for \<open>L = 1\<close> all four
  indices are \<open>0\<close>.
\<close>

theorem pos_vecinos_wraps:
  "(0 \<le> i \<and> i < long_lado c \<and> 0 \<le> j \<and> j < long_lado c \<longrightarrow>
      pos_vecinos c i j =
        [wrap_index (long_lado c) (i - 1), wrap_index (long_lado c) (i + 1),
         wrap_index (long_lado c) (j - 1), wrap_index (long_lado c) (j + 1)])
   \<and> pos_vecinos (c\<lparr>long_lado := 9\<rparr>) 0 0 = [8, 1, 8, 1]
   \<and> pos_vecinos (c\<lparr>long_lado := 9\<rparr>) 8 8 = [7, 0, 7, 0]
   \<and> pos_vecinos (c\<lparr>long_lado := 1\<rparr>) 0 0 = [0, 0, 0, 0]"
  by (simp add: pos_vecinos_eq wrap_index_def Let_def)

theorem pos_vecinos_wraps_witness:
  "(0::int) \<le> 0 \<and> 0 < long_lado simulacion \<and> (0::int) \<le> 8 \<and> 8 < long_lado simulacion \<and>
   pos_vecinos simulacion 0 8 = [8, 1, 7, 0]"
  using pos_vecinos_wraps[of 0 simulacion 8]
  by (simp add: long_lado_simulacion wrap_index_def)

subsection \<open>var_termo\<close>

lemma for_loop_sum:
  "(\<And>x E M. x \<in> set xs \<Longrightarrow> body x (E, M) = Inr (E + a x, M + b x)) \<Longrightarrow>
   for_loop xs body (E, M) = Inr (E + sum_list (map a xs), M + sum_list (map b xs))"
  by (induction xs arbitrary: E M) (simp_all add: add.assoc)

lemma py_range_0: "py_range 0 (int n) = map int [0..<n]"
  by (simp add: py_range_def)

lemma for_loop_range_sum:
  assumes "\<And>k E M. k < n \<Longrightarrow> body (int k) (E, M) = Inr (E + a k, M + b k)"
  shows "for_loop (py_range 0 (int n)) body (E, M) = Inr (E + (\<Sum>k = 0..<n. a k), M + (\<Sum>k = 0..<n. b k))"
proof -
  have "for_loop (map int [0..<n]) body (E, M)
      = Inr (E + sum_list (map (\<lambda>x. a (nat x)) (map int [0..<n])),
             M + sum_list (map (\<lambda>x. b (nat x)) (map int [0..<n])))"
    by (rule for_loop_sum) (use assms in auto)
  then show ?thesis
    by (simp add: py_range_0 comp_def interv_sum_list_conv_sum_set_nat)
qed

lemma np_index_nat: "k < n \<Longrightarrow> np_index n (int k) = Inr k"
  by (simp add: np_index_def)

lemma np_get2_shape:
  "shape L s \<Longrightarrow> a < L \<Longrightarrow> b < L \<Longrightarrow> np_get2 s (int a) (int b) = Inr (s ! a ! b)"
  by (simp add: np_get2_def shape_def np_index_nat list_all_length)

lemma wrap_pred:
  "i < L \<Longrightarrow> (if int i - 1 = int L then 0 else if int i - 1 = - 1 then int L - 1 else int i - 1)
      = int ((i + L - 1) mod L)"
proof (cases i)
  case 0
  assume "i < L"
  with 0 show ?thesis by (simp add: of_nat_diff)
next
  case (Suc k)
  assume "i < L"
  with Suc have "(i + L - 1) mod L = k" by simp
  with Suc \<open>i < L\<close> show ?thesis by simp
qed

lemma wrap_succ:
  "i < L \<Longrightarrow> (if int i + 1 = int L then 0 else if int i + 1 = - 1 then int L - 1 else int i + 1)
      = int ((i + 1) mod L)"
proof (cases "Suc i = L")
  case True
  then show ?thesis by auto
next
  case False
  assume "i < L"
  with False have "(i + 1) mod L = i + 1" by simp
  with False show ?thesis by auto
qed

lemma pos_vecinos_nat:
  assumes "long_lado c = int L" "i < L" "j < L"
  shows "pos_vecinos c (int i) (int j) =
     [int ((i + L - 1) mod L), int ((i + 1) mod L), int ((j + L - 1) mod L), int ((j + 1) mod L)]"
  using assms wrap_pred[of i L] wrap_succ[of i L] wrap_pred[of j L] wrap_succ[of j L]
  by (simp only: pos_vecinos_eq Let_def)

lemma var_termo_body_shape:
  assumes "shape L s" "long_lado c = int L" "i < L" "j < L"
  shows "var_termo_body c s (int i) (int j) (E, M) =
     Inr (E + - J c * (s ! i ! j) *
          (s ! ((i + L - 1) mod L) ! j + s ! ((i + 1) mod L) ! j +
           s ! i ! ((j + L - 1) mod L) + s ! i ! ((j + 1) mod L)), M + s ! i ! j)"
  using assms
  by (simp add: var_termo_body_def pos_vecinos_nat np_get2_shape)


lemma var_termo_inner:
  assumes "shape L s" "long_lado c = int L" "i < L"
  shows "for_loop (py_range 0 (long_lado c)) (\<lambda>j. var_termo_body c s (int i) j) (E, M) =
     Inr (E + (\<Sum>j = 0..<L. bond (J c) L s i j), M + (\<Sum>j = 0..<L. s ! i ! j))"
  unfolding assms(2)
  by (rule for_loop_range_sum) (simp add: var_termo_body_shape[OF assms] bond_def)

lemma var_termo_outer:
  assumes "shape L s" "long_lado c = int L"
  shows "for_loop (py_range 0 (long_lado c))
           (\<lambda>i. for_loop (py_range 0 (long_lado c)) (\<lambda>j. var_termo_body c s i j)) (E, M) =
     Inr (E + (\<Sum>i = 0..<L. \<Sum>j = 0..<L. bond (J c) L s i j),
          M + (\<Sum>i = 0..<L. \<Sum>j = 0..<L. s ! i ! j))"
proof -
  have "for_loop (py_range 0 (int L))
           (\<lambda>i. for_loop (py_range 0 (long_lado c)) (\<lambda>j. var_termo_body c s i j)) (E, M) =
     Inr (E + (\<Sum>i = 0..<L. \<Sum>j = 0..<L. bond (J c) L s i j),
          M + (\<Sum>i = 0..<L. \<Sum>j = 0..<L. s ! i ! j))"
    by (rule for_loop_range_sum) (rule var_termo_inner[OF assms])
  then show ?thesis by (simp only: assms(2))
qed

lemma var_termo_shape:
  assumes "shape L s" "long_lado c = int L" "N c \<noteq> 0"
  shows "var_termo c s = Inr (energia (J c) L s, suma_espines L s / real_of_int (N c))"
  using assms(3)
  by (simp add: var_termo_def var_termo_outer[OF assms(1,2)] energia_def suma_espines_def bond_def)

lemma espines_nth:
  "shape L s \<Longrightarrow> espines s \<Longrightarrow> i < L \<Longrightarrow> j < L \<Longrightarrow> s ! i ! j = 1 \<or> s ! i ! j = - 1"
  by (simp add: shape_def espines_def list_all_length)

lemma espines_Ints:
  "shape L s \<Longrightarrow> espines s \<Longrightarrow> i < L \<Longrightarrow> j < L \<Longrightarrow> s ! i ! j \<in> \<int>"
  using espines_nth[of L s i j] by auto

lemma espines_abs:
  "shape L s \<Longrightarrow> espines s \<Longrightarrow> i < L \<Longrightarrow> j < L \<Longrightarrow> \<bar>s ! i ! j\<bar> = 1"
  using espines_nth[of L s i j] by auto

lemma suma_espines_abs:
  assumes "shape L s" "espines s"
  shows "\<bar>suma_espines L s\<bar> \<le> real (L * L)"
proof -
  have "\<bar>suma_espines L s\<bar> \<le> (\<Sum>i = 0..<L. \<bar>\<Sum>j = 0..<L. s ! i ! j\<bar>)"
    unfolding suma_espines_def by (rule sum_abs)
  also have "\<dots> \<le> (\<Sum>i = 0..<L. \<Sum>j = 0..<L. \<bar>s ! i ! j\<bar>)"
    by (rule sum_mono) (rule sum_abs)
  also have "\<dots> = (\<Sum>i = 0..<L. \<Sum>j = 0..<L. 1)"
    by (intro sum.cong refl) (simp add: espines_abs[OF assms])
  also have "\<dots> = real (L * L)" by simp
  finally show ?thesis .
qed

lemma energia_multiple:
  assumes "shape L s" "espines s"
  shows "\<exists>k::int. energia Jc L s = of_int k * (Jc / 2)"
proof -
  let ?t = "\<lambda>i j. (s ! i ! j) *
          (s ! ((i + L - 1) mod L) ! j + s ! ((i + 1) mod L) ! j +
           s ! i ! ((j + L - 1) mod L) + s ! i ! ((j + 1) mod L))"
  have "(\<Sum>i = 0..<L. \<Sum>j = 0..<L. ?t i j) \<in> \<int>"
  proof (intro Ints_sum Ints_mult Ints_add)
    fix i j assume "i \<in> {0..<L}" "j \<in> {0..<L}"
    then have ij: "i < L" "j < L" "0 < L" by auto
    then have m: "(i + L - 1) mod L < L" "(i + 1) mod L < L" "(j + L - 1) mod L < L" "(j + 1) mod L < L"
      by simp_all
    show "s ! i ! j \<in> \<int>" "s ! ((i + L - 1) mod L) ! j \<in> \<int>" "s ! ((i + 1) mod L) ! j \<in> \<int>"
      "s ! i ! ((j + L - 1) mod L) \<in> \<int>" "s ! i ! ((j + 1) mod L) \<in> \<int>"
      using ij m by (simp_all add: espines_Ints[OF assms])
  qed
  then obtain k :: int where k: "(\<Sum>i = 0..<L. \<Sum>j = 0..<L. ?t i j) = of_int k"
    by (auto elim: Ints_cases)
  have "energia Jc L s = (\<Sum>i = 0..<L. \<Sum>j = 0..<L. - Jc * ?t i j) / 2"
    by (simp add: energia_def mult.assoc)
  also have "\<dots> = (- Jc * (\<Sum>i = 0..<L. \<Sum>j = 0..<L. ?t i j)) / 2"
    by (simp only: sum_distrib_left)
  also have "\<dots> = of_int (- k) * (Jc / 2)"
    unfolding k by simp
  finally show ?thesis by blast
qed

lemma shape_replicate: "shape L (replicate L (replicate L v))"
  by (simp add: shape_def list_all_iff)

lemma energia_ones: "energia Jc L (replicate L (replicate L 1)) = - 2 * Jc * real (L * L)"
proof -
  have "energia Jc L (replicate L (replicate L 1)) = (\<Sum>i = 0..<L. \<Sum>j = 0..<L. - Jc * 4) / 2"
    unfolding energia_def
    by (intro arg_cong2[where f = "(/)"] sum.cong refl) simp
  then show ?thesis by simp
qed

lemma suma_espines_ones: "suma_espines L (replicate L (replicate L 1)) = real (L * L)"
proof -
  have "suma_espines L (replicate L (replicate L 1)) = (\<Sum>i = 0..<L. \<Sum>j = 0..<L. 1)"
    unfolding suma_espines_def
    by (intro sum.cong refl) simp
  then show ?thesis by simp
qed

text \<open>
  C3. On an \<open>L \<times> L\<close> lattice, with \<open>N = L\<^sup>2\<close> cells, \<open>var_termo\<close> returns \<open>(E, M)\<close> where
  \<open>E\<close> is the sum over all cells of \<open>-J s(i,j)\<close> times the sum of the four periodic
  neighbours, divided by 2, and \<open>M\<close> is the sum of all spins divided by \<open>N\<close>. On the
  lattice of all \<open>+1\<close> it returns \<open>E = -2 J N\<close> and \<open>M = 1\<close>.
\<close>

theorem var_termo_sums:
  assumes "shape L s" and "long_lado c = int L" and "N c = int L * int L" and "0 < L"
  shows "var_termo c s = Inr (energia (J c) L s, suma_espines L s / real_of_int (N c)) \<and>
         (s = replicate L (replicate L 1) \<longrightarrow>
            var_termo c s = Inr (- 2 * J c * real_of_int (N c), 1))"
proof -
  from assms(3,4) have n: "N c \<noteq> 0" by simp
  have 1: "var_termo c s = Inr (energia (J c) L s, suma_espines L s / real_of_int (N c))"
    by (rule var_termo_shape[OF assms(1,2) n])
  have 2: "var_termo c s = Inr (- 2 * J c * real_of_int (N c), 1)" if "s = replicate L (replicate L 1)"
    unfolding 1 unfolding that energia_ones suma_espines_ones
    using assms(4) by (simp add: assms(3))
  from 1 2 show ?thesis by blast
qed

theorem var_termo_sums_witness:
  "shape 9 (replicate 9 (replicate 9 1)) \<and> long_lado simulacion = int 9 \<and>
   N simulacion = int 9 * int 9 \<and> (0::nat) < 9 \<and>
   var_termo simulacion (replicate 9 (replicate 9 1)) = Inr (- 162, 1)"
  using var_termo_sums[of 9 "replicate 9 (replicate 9 1)" simulacion, THEN conjunct2]
  by (simp add: shape_replicate long_lado_simulacion N_simulacion J_simulacion)

text \<open>
  C9. On a lattice whose cells are all \<open>-1\<close> or \<open>+1\<close>, the magnetization that
  \<open>var_termo\<close> returns lies in \<open>[-1, 1]\<close> and the energy is an integer multiple of
  \<open>J / 2\<close>.
\<close>

theorem var_termo_bounds:
  assumes "shape L s" and "espines s" and "long_lado c = int L" and "N c = int L * int L" and "0 < L"
  shows "\<exists>E M. var_termo c s = Inr (E, M) \<and> - 1 \<le> M \<and> M \<le> 1 \<and>
           (\<exists>k::int. E = of_int k * (J c / 2))"
proof -
  from assms(4,5) have n: "N c \<noteq> 0" by simp
  have v: "var_termo c s = Inr (energia (J c) L s, suma_espines L s / real_of_int (N c))"
    by (rule var_termo_shape[OF assms(1,3) n])
  have "\<bar>suma_espines L s / real_of_int (N c)\<bar> \<le> 1"
    using suma_espines_abs[OF assms(1,2)] assms(5) by (simp add: assms(4))
  then have "- 1 \<le> suma_espines L s / real_of_int (N c)" "suma_espines L s / real_of_int (N c) \<le> 1"
    by linarith+
  with v energia_multiple[OF assms(1,2), of "J c"] show ?thesis by blast
qed


theorem var_termo_bounds_witness:
  "shape 2 [[1, - 1], [1, 1]] \<and> espines [[1, - 1], [1, 1]] \<and>
   (\<exists>E M. var_termo (simulacion\<lparr>N := 4, long_lado := 2\<rparr>) [[1, - 1], [1, 1]] = Inr (E, M) \<and> - 1 \<le> M \<and> M \<le> 1 \<and>
           (\<exists>k::int. E = of_int k * (J (simulacion\<lparr>N := 4, long_lado := 2\<rparr>) / 2)))"
  using var_termo_bounds[of 2 "[[1, - 1], [1, 1]]" "simulacion\<lparr>N := 4, long_lado := 2\<rparr>"]
  by (simp add: shape_def espines_def)

subsection \<open>cambio_espin\<close>

lemma randint_range:
  "0 < L \<Longrightarrow> randint 0 (int L) g =
     Inr (int (int_draws g (int_pos g) mod L), g\<lparr>int_pos := Suc (int_pos g)\<rparr>)"
  by (simp add: randint_def zmod_int)

lemma np_set2_shape:
  "shape L s \<Longrightarrow> a < L \<Longrightarrow> b < L \<Longrightarrow>
     np_set2 s (int a) (int b) v = Inr (s[a := (s ! a)[b := v]])"
  by (simp add: np_set2_def shape_def np_index_nat list_all_length)

lemma shape_update:
  "shape L s \<Longrightarrow> shape L (s[a := (s ! a)[b := v]])"
proof -
  assume s: "shape L s"
  have "length (s[a := (s ! a)[b := v]] ! n) = L" if "n < L" for n
    using s that by (cases "n = a") (simp_all add: shape_def list_all_length)
  with s show ?thesis by (simp add: shape_def list_all_length)
qed

lemma shape_flip: "shape L s \<Longrightarrow> shape L (flip s xy)"
  by (cases xy) (simp add: flip_def shape_update)

lemma flip_flip:
  assumes "shape L s" "x < L" "y < L"
  shows "(flip s (x, y))[x := (flip s (x, y) ! x)[y := - (flip s (x, y) ! x ! y)]] = s"
  using assms by (simp add: flip_def shape_def list_all_length list_update_same_conv)

lemma sitio_range:
  "long_lado c = int L \<Longrightarrow> 0 < L \<Longrightarrow> fst (sitio c g) < L \<and> snd (sitio c g) < L"
  by (simp add: sitio_def)

lemma cambio_espin_eq:
  assumes "shape L s" "long_lado c = int L" "0 < L" "N c \<noteq> 0"
  shows "cambio_espin c s beta g =
     (let E_0 = energia (J c) L s; E_f = energia (J c) L (flip s (sitio c g));
          M_0 = suma_espines L s / real_of_int (N c);
          g2 = g\<lparr>int_pos := Suc (Suc (int_pos g))\<rparr>
      in if E_f - E_0 > 0
         then Inr ((E_f, M_0),
                   if sorteo g \<ge> exp (- beta * (E_f - E_0)) then s else flip s (sitio c g),
                   g2\<lparr>unif_pos := Suc (unif_pos g)\<rparr>)
         else Inr ((E_f, M_0), flip s (sitio c g), g2))"
proof -
  obtain x y where xy: "sitio c g = (x, y)" by (cases "sitio c g")
  from sitio_range[OF assms(2,3), of g] xy have r: "x < L" "y < L" by simp_all
  have x: "int_draws g (int_pos g) mod L = x" and y: "int_draws g (Suc (int_pos g)) mod L = y"
    using xy assms(2) by (simp_all add: sitio_def)
  have f: "s[x := (s ! x)[y := - (s ! x ! y)]] = flip s (x, y)" by (simp add: flip_def)
  have sf: "shape L (flip s (x, y))" by (rule shape_flip[OF assms(1)])
  show ?thesis
    unfolding cambio_espin_def assms(2) xy
    by (simp add: randint_range[OF assms(3)] x y var_termo_shape[OF assms(1,2,4)]
        np_get2_shape[OF assms(1) r] np_set2_shape[OF assms(1) r] f
        var_termo_shape[OF sf assms(2,4)] np_get2_shape[OF sf r] np_set2_shape[OF sf r]
        flip_flip[OF assms(1) r] uniform_def sorteo_def Let_def)
qed

lemma flip_neq:
  assumes "shape L s" "espines s" "x < L" "y < L"
  shows "flip s (x, y) \<noteq> s"
proof
  assume "flip s (x, y) = s"
  then have "flip s (x, y) ! x ! y = s ! x ! y" by simp
  moreover have "flip s (x, y) ! x ! y = - (s ! x ! y)"
    using assms(1,3,4) by (simp add: flip_def shape_def list_all_length)
  ultimately show False using espines_nth[OF assms] by auto
qed

lemma flip_other:
  assumes "(a, b) \<noteq> (x, y)"
  shows "flip s (x, y) ! a ! b = s ! a ! b"
proof (cases "a = x")
  case False
  then show ?thesis by (simp add: flip_def)
next
  case True
  with assms have "b \<noteq> y" by simp
  with True show ?thesis
    by (cases "x < length s") (simp_all add: flip_def list_update_beyond)
qed

lemma var_termo_2x2_a:
  "var_termo (simulacion\<lparr>N := 4, long_lado := 2\<rparr>) [[1, 1], [1, 1]] = Inr (- 8, 1)"
  by (simp add: var_termo_def py_range_def var_termo_body_def pos_vecinos_eq np_get2_def
      np_index_def numeral_2_eq_2 J_simulacion Let_def)

lemma var_termo_2x2_b:
  "var_termo (simulacion\<lparr>N := 4, long_lado := 2\<rparr>) [[- 1, 1], [1, 1]] = Inr (0, 1 / 2)"
  by (simp add: var_termo_def py_range_def var_termo_body_def pos_vecinos_eq np_get2_def
      np_index_def numeral_2_eq_2 J_simulacion Let_def)

lemma sitio_0:
  "sitio c \<lparr>int_draws = \<lambda>k. 0, unif_draws = u, int_pos = 0, unif_pos = 0\<rparr> = (0, 0)"
  by (simp add: sitio_def)

text \<open>
  C1. One Metropolis step on a lattice of spins \<open>-1\<close>, \<open>+1\<close>, at any \<open>beta\<close>: with
  \<open>Delta_E = E_f - E_0\<close> the difference of the energies that \<open>var_termo\<close> returns after
  and before the flip, the flip stays applied whenever \<open>Delta_E \<le> 0\<close>; when
  \<open>Delta_E > 0\<close> the lattice is back to what it was if and only if the acceptance draw
  \<open>p\<close> satisfies \<open>p \<ge> exp (- beta * Delta_E)\<close>, and the flip stays otherwise. The flipped
  lattice differs from the original one, so the two outcomes exclude each other.
\<close>

theorem cambio_espin_acceptance:
  assumes "shape L s" and "espines s" and "long_lado c = int L" and "0 < L" and "N c \<noteq> 0"
  shows "\<exists>E_0 M_0 E_f M_f out s' g'.
     var_termo c s = Inr (E_0, M_0) \<and>
     var_termo c (flip s (sitio c g)) = Inr (E_f, M_f) \<and>
     cambio_espin c s beta g = Inr (out, s', g') \<and>
     flip s (sitio c g) \<noteq> s \<and>
     (E_f - E_0 \<le> 0 \<longrightarrow> s' = flip s (sitio c g)) \<and>
     (E_f - E_0 > 0 \<longrightarrow>
        (s' = s \<longleftrightarrow> sorteo g \<ge> exp (- beta * (E_f - E_0))) \<and>
        (s' = flip s (sitio c g) \<longleftrightarrow> \<not> sorteo g \<ge> exp (- beta * (E_f - E_0))))"
proof -
  have n: "flip s (sitio c g) \<noteq> s"
    using flip_neq[OF assms(1,2), of "fst (sitio c g)" "snd (sitio c g)"]
      sitio_range[OF assms(3,4), of g] by simp
  show ?thesis
    using n
    by (simp add: var_termo_shape[OF assms(1,3,5)]
        var_termo_shape[OF shape_flip[OF assms(1)] assms(3,5)]
        cambio_espin_eq[OF assms(1,3,4,5)] Let_def)
qed

theorem cambio_espin_acceptance_witness:
  "shape 2 [[1, 1], [1, 1]] \<and> espines [[1, 1], [1, 1]] \<and>
   long_lado (simulacion\<lparr>N := 4, long_lado := 2\<rparr>) = int 2 \<and>
   N (simulacion\<lparr>N := 4, long_lado := 2\<rparr>) \<noteq> 0 \<and>
   (\<exists>out g'. cambio_espin (simulacion\<lparr>N := 4, long_lado := 2\<rparr>) [[1, 1], [1, 1]] 1
        \<lparr>int_draws = \<lambda>k. 0, unif_draws = \<lambda>k. 1, int_pos = 0, unif_pos = 0\<rparr> =
      Inr (out, [[1, 1], [1, 1]], g')) \<and>
   (\<exists>out g'. cambio_espin (simulacion\<lparr>N := 4, long_lado := 2\<rparr>) [[1, 1], [1, 1]] 1
        \<lparr>int_draws = \<lambda>k. 0, unif_draws = \<lambda>k. 0, int_pos = 0, unif_pos = 0\<rparr> =
      Inr (out, [[- 1, 1], [1, 1]], g'))"
  using cambio_espin_acceptance[of 2 "[[1, 1], [1, 1]]" "simulacion\<lparr>N := 4, long_lado := 2\<rparr>"
      "\<lparr>int_draws = \<lambda>k. 0, unif_draws = \<lambda>k. 1, int_pos = 0, unif_pos = 0\<rparr>" 1]
    cambio_espin_acceptance[of 2 "[[1, 1], [1, 1]]" "simulacion\<lparr>N := 4, long_lado := 2\<rparr>"
      "\<lparr>int_draws = \<lambda>k. 0, unif_draws = \<lambda>k. 0, int_pos = 0, unif_pos = 0\<rparr>" 1]
  by (simp add: shape_def espines_def sitio_0 flip_def var_termo_2x2_a var_termo_2x2_b sorteo_def)

text \<open>
  C2. \<open>cambio_espin\<close> returns the pair \<open>(E_f, M_0)\<close>: the energy of the lattice right
  after the flip and the magnetization of the lattice before it, whatever the
  acceptance draw and whether the flip stays or is undone.
\<close>

theorem cambio_espin_returns:
  assumes "shape L s" and "long_lado c = int L" and "0 < L" and "N c \<noteq> 0"
  shows "\<exists>E_0 M_0 E_f M_f s' g'.
     var_termo c s = Inr (E_0, M_0) \<and>
     var_termo c (flip s (sitio c g)) = Inr (E_f, M_f) \<and>
     cambio_espin c s beta g = Inr ((E_f, M_0), s', g') \<and>
     (s' = s \<or> s' = flip s (sitio c g))"
  by (simp add: var_termo_shape[OF assms(1,2,4)]
        var_termo_shape[OF shape_flip[OF assms(1)] assms(2,4)]
        cambio_espin_eq[OF assms] Let_def)

theorem cambio_espin_returns_witness:
  "shape 2 [[1, 1], [1, 1]] \<and>
   long_lado (simulacion\<lparr>N := 4, long_lado := 2\<rparr>) = int 2 \<and>
   N (simulacion\<lparr>N := 4, long_lado := 2\<rparr>) \<noteq> 0 \<and>
   (\<exists>s' g'. cambio_espin (simulacion\<lparr>N := 4, long_lado := 2\<rparr>) [[1, 1], [1, 1]] 1
        \<lparr>int_draws = \<lambda>k. 0, unif_draws = \<lambda>k. 1, int_pos = 0, unif_pos = 0\<rparr> =
      Inr ((0, 1), s', g'))"
  using cambio_espin_returns[of 2 "[[1, 1], [1, 1]]" "simulacion\<lparr>N := 4, long_lado := 2\<rparr>"
      "\<lparr>int_draws = \<lambda>k. 0, unif_draws = \<lambda>k. 1, int_pos = 0, unif_pos = 0\<rparr>" 1]
  by (simp add: shape_def sitio_0 flip_def var_termo_2x2_a var_termo_2x2_b) blast

text \<open>
  C5. \<open>cambio_espin\<close> changes at most the selected cell: the lattice keeps its shape,
  every other cell holds the value it had, and when the flip is undone (\<open>Delta_E > 0\<close>
  and \<open>p \<ge> exp (- beta * Delta_E)\<close>) the whole lattice is the one before the call.
\<close>

theorem cambio_espin_frame:
  assumes "shape L s" and "long_lado c = int L" and "0 < L" and "N c \<noteq> 0"
  shows "\<exists>E_0 M_0 E_f M_f out s' g'.
     var_termo c s = Inr (E_0, M_0) \<and>
     var_termo c (flip s (sitio c g)) = Inr (E_f, M_f) \<and>
     cambio_espin c s beta g = Inr (out, s', g') \<and>
     shape L s' \<and>
     (\<forall>a b. (a, b) \<noteq> sitio c g \<longrightarrow> s' ! a ! b = s ! a ! b) \<and>
     (E_f - E_0 > 0 \<and> sorteo g \<ge> exp (- beta * (E_f - E_0)) \<longrightarrow> s' = s)"
proof -
  obtain x y where xy: "sitio c g = (x, y)" by (cases "sitio c g")
  have o: "\<forall>a b. (a, b) \<noteq> (x, y) \<longrightarrow> flip s (x, y) ! a ! b = s ! a ! b"
    using flip_other by blast
  show ?thesis
    using o assms(1) shape_flip[OF assms(1), of "(x, y)"]
    by (simp add: var_termo_shape[OF assms(1,2,4)]
        var_termo_shape[OF shape_flip[OF assms(1)] assms(2,4)]
        cambio_espin_eq[OF assms] Let_def xy)
qed

theorem cambio_espin_frame_witness:
  "shape 2 [[1, 1], [1, 1]] \<and>
   long_lado (simulacion\<lparr>N := 4, long_lado := 2\<rparr>) = int 2 \<and>
   N (simulacion\<lparr>N := 4, long_lado := 2\<rparr>) \<noteq> 0 \<and>
   (\<exists>out g'. cambio_espin (simulacion\<lparr>N := 4, long_lado := 2\<rparr>) [[1, 1], [1, 1]] 1
        \<lparr>int_draws = \<lambda>k. 0, unif_draws = \<lambda>k. 1, int_pos = 0, unif_pos = 0\<rparr> =
      Inr (out, [[1, 1], [1, 1]], g'))"
  using cambio_espin_frame[of 2 "[[1, 1], [1, 1]]" "simulacion\<lparr>N := 4, long_lado := 2\<rparr>"
      "\<lparr>int_draws = \<lambda>k. 0, unif_draws = \<lambda>k. 1, int_pos = 0, unif_pos = 0\<rparr>" 1]
  by (simp add: shape_def sitio_0 flip_def var_termo_2x2_a var_termo_2x2_b sorteo_def)

subsection \<open>evolucion\<close>

lemma bind_err_eq_Inr: "bind_err m f = Inr y \<longleftrightarrow> (\<exists>x. m = Inr x \<and> f x = Inr y)"
  by (cases m) simp_all

lemma np_index_posicion:
  "- int n \<le> i \<Longrightarrow> i < int n \<Longrightarrow> np_index n i = Inr (posicion n i)"
  by (simp add: np_index_def posicion_def)

lemma np_index_Inr:
  "np_index n i = Inr k \<Longrightarrow> k = posicion n i \<and> - int n \<le> i \<and> i < int n"
  by (auto simp: np_index_def posicion_def split: if_splits)

lemma np_set_posicion:
  "- int (length a) \<le> i \<Longrightarrow> i < int (length a) \<Longrightarrow>
     np_set a i v = Inr (a[posicion (length a) i := v])"
  by (simp add: np_set_def np_index_posicion)

lemma np_set_Inr:
  "np_set a i v = Inr a' \<Longrightarrow> a' = a[posicion (length a) i := v]"
  by (auto simp: np_set_def bind_err_eq_Inr dest: np_index_Inr)

lemma cambio_espin_shape:
  assumes "shape L s" "long_lado c = int L" "0 < L" "N c \<noteq> 0"
  shows "\<exists>out s' g'. cambio_espin c s beta g = Inr (out, s', g') \<and> shape L s'"
  using assms(1) shape_flip[OF assms(1), of "sitio c g"]
  by (simp add: cambio_espin_eq[OF assms] Let_def)

lemma anotar_Cons:
  "anotar ((i, v) # ws) a = anotar ws (a[posicion (length a) i := v])"
  by (simp add: anotar_def)

lemma evolucion_body_eq:
  assumes "cambio_espin c s beta g = Inr ((E, M), s', g')"
    and "- int (length aE) \<le> i" "i < int (length aE)" "length aM = length aE"
  shows "evolucion_body c beta i (s, g, aE, aM) =
     Inr (s', g', aE[posicion (length aE) i := E], aM[posicion (length aM) i := M])"
  using assms by (simp add: evolucion_body_def np_set_posicion)

lemma evolucion_loop:
  assumes "long_lado c = int L" "0 < L" "N c \<noteq> 0"
  shows "shape L s \<Longrightarrow> length aE = n \<Longrightarrow> length aM = n \<Longrightarrow>
     \<forall>i \<in> set idx. - int n \<le> i \<and> i < int n \<Longrightarrow>
     \<exists>ws s' g'. escrituras c beta idx s g = Inr (ws, s', g') \<and> map fst ws = idx \<and>
        shape L s' \<and>
        for_loop idx (evolucion_body c beta) (s, g, aE, aM) =
          Inr (s', g', anotar (map (\<lambda>(i, E, M). (i, E)) ws) aE,
                       anotar (map (\<lambda>(i, E, M). (i, M)) ws) aM)"
proof (induction idx arbitrary: s g aE aM)
  case Nil
  then show ?case by (simp add: anotar_def)
next
  case (Cons i idx)
  from cambio_espin_shape[OF Cons.prems(1) assms, of beta g]
  obtain E M s1 g1 where step: "cambio_espin c s beta g = Inr ((E, M), s1, g1)" and s1: "shape L s1"
    by auto
  from Cons.prems have i: "- int (length aE) \<le> i" "i < int (length aE)" "length aM = length aE"
    by simp_all
  let ?aE = "aE[posicion (length aE) i := E]" and ?aM = "aM[posicion (length aM) i := M]"
  have len: "length ?aE = n" "length ?aM = n" using Cons.prems by simp_all
  from Cons.prems(4) have rest: "\<forall>i \<in> set idx. - int n \<le> i \<and> i < int n" by simp
  from Cons.IH[OF s1 len rest, of g1]
  obtain ws s' g' where ih: "escrituras c beta idx s1 g1 = Inr (ws, s', g')" "map fst ws = idx"
      "shape L s'"
      "for_loop idx (evolucion_body c beta) (s1, g1, ?aE, ?aM) =
          Inr (s', g', anotar (map (\<lambda>(i, E, M). (i, E)) ws) ?aE,
                       anotar (map (\<lambda>(i, E, M). (i, M)) ws) ?aM)"
    by blast
  have "escrituras c beta (i # idx) s g = Inr ((i, E, M) # ws, s', g')"
    by (simp add: step ih(1))
  moreover have "for_loop (i # idx) (evolucion_body c beta) (s, g, aE, aM) =
      Inr (s', g', anotar (map (\<lambda>(i, E, M). (i, E)) ((i, E, M) # ws)) aE,
                   anotar (map (\<lambda>(i, E, M). (i, M)) ((i, E, M) # ws)) aM)"
    by (simp add: evolucion_body_eq[OF step i] ih(4) anotar_Cons)
  ultimately show ?case using ih(2,3) by auto
qed

lemma length_anotar: "length (anotar ws a) = length a"
proof (induction ws arbitrary: a)
  case Nil
  show ?case by (simp add: anotar_def)
next
  case (Cons w ws)
  then show ?case by (cases w) (simp add: anotar_Cons)
qed

lemma for_loop_untouched:
  "for_loop idx (evolucion_body c beta) (s, g, aE, aM) = Inr (s', g', aE', aM') \<Longrightarrow>
   length aE = n \<Longrightarrow> length aM = n \<Longrightarrow> \<forall>i \<in> set idx. posicion n i \<noteq> k \<Longrightarrow>
   aE' ! k = aE ! k \<and> aM' ! k = aM ! k"
proof (induction idx arbitrary: s g aE aM)
  case Nil
  then show ?case by simp
next
  case (Cons i idx)
  from Cons.prems(1) obtain st1 where
    b: "evolucion_body c beta i (s, g, aE, aM) = Inr st1" and
    r: "for_loop idx (evolucion_body c beta) st1 = Inr (s', g', aE', aM')"
    by (auto simp: bind_err_eq_Inr)
  from b obtain E M s1 g1 aE1 aM1 where
    st1: "st1 = (s1, g1, aE1, aM1)" and e: "np_set aE i E = Inr aE1" and m: "np_set aM i M = Inr aM1"
    by (auto simp: evolucion_body_def bind_err_eq_Inr)
  from np_set_Inr[OF e] np_set_Inr[OF m] Cons.prems(2,3)
  have a1: "aE1 = aE[posicion n i := E]" "aM1 = aM[posicion n i := M]" by simp_all
  from Cons.prems(4) have ne: "posicion n i \<noteq> k" and rest: "\<forall>i \<in> set idx. posicion n i \<noteq> k"
    by simp_all
  from a1 Cons.prems(2,3) have len: "length aE1 = n" "length aM1 = n" by simp_all
  from Cons.IH[OF r[unfolded st1] len rest] have "aE' ! k = aE1 ! k \<and> aM' ! k = aM1 ! k" .
  with a1 ne show ?case by simp
qed

lemma posicion_neq:
  assumes "1 \<le> k" "k < int n" "i \<noteq> k" "i + int n \<noteq> k"
  shows "posicion n i \<noteq> nat k"
  using assms by (auto simp: posicion_def)

lemma evolucion_una_celda:
  "evolucion (una_celda 3) [0, 1] 1 [[1]] (dado 0 0) =
     Inr (([- 2, - 2, 1], [1, 1, 1]), [[- 1]], (dado 0 0)\<lparr>int_pos := 2\<rparr>)"
  by (simp add: evolucion_def una_celda_def dado_def var_termo_def py_range_def var_termo_body_def
      pos_vecinos_eq np_get2_def np_set2_def np_index_def np_ones_def np_set_def
      py_slice_from_def evolucion_body_def cambio_espin_def randint_def J_simulacion Let_def
      numeral_eq_Suc)

lemma cant_iter_una_celda: "cant_iter (una_celda n) = n"
  by (simp add: una_celda_def)

lemma np_index_out:
  "\<not> (- int n \<le> i \<and> i < int n) \<Longrightarrow> np_index n i = Inl IndexError"
  by (auto simp: np_index_def)

lemma evolucion_body_out:
  assumes "cambio_espin c s beta g = Inr ((E, M), s', g')"
    and "\<not> (- int (length aE) \<le> i \<and> i < int (length aE))"
  shows "evolucion_body c beta i (s, g, aE, aM) = Inl IndexError"
  using assms by (simp add: evolucion_body_def np_set_def np_index_out)

lemma evolucion_loop_out:
  assumes "long_lado c = int L" "0 < L" "N c \<noteq> 0"
  shows "shape L s \<Longrightarrow> length aE = n \<Longrightarrow> length aM = n \<Longrightarrow>
     \<exists>i \<in> set idx. \<not> (- int n \<le> i \<and> i < int n) \<Longrightarrow>
     for_loop idx (evolucion_body c beta) (s, g, aE, aM) = Inl IndexError"
proof (induction idx arbitrary: s g aE aM)
  case Nil
  then show ?case by simp
next
  case (Cons i idx)
  from cambio_espin_shape[OF Cons.prems(1) assms, of beta g]
  obtain E M s1 g1 where step: "cambio_espin c s beta g = Inr ((E, M), s1, g1)" and s1: "shape L s1"
    by auto
  show ?case
  proof (cases "- int n \<le> i \<and> i < int n")
    case False
    with Cons.prems(2) have "\<not> (- int (length aE) \<le> i \<and> i < int (length aE))" by simp
    from evolucion_body_out[OF step this] show ?thesis by simp
  next
    case True
    with Cons.prems have i: "- int (length aE) \<le> i" "i < int (length aE)" "length aM = length aE"
      by simp_all
    let ?aE = "aE[posicion (length aE) i := E]" and ?aM = "aM[posicion (length aM) i := M]"
    have len: "length ?aE = n" "length ?aM = n" using Cons.prems by simp_all
    from True Cons.prems(4) have rest: "\<exists>i \<in> set idx. \<not> (- int n \<le> i \<and> i < int n)" by auto
    from Cons.IH[OF s1 len rest, of g1] evolucion_body_eq[OF step i]
    show ?thesis by simp
  qed
qed

text \<open>
  C6, as the specification states it, fails: an entry of the index sequence that is
  \<open>cant_iter\<close> or more (or less than \<open>-cant_iter\<close>) makes the write raise \<open>IndexError\<close>.
  Here \<open>cant_iter = 2\<close> and the sequence is \<open>[0, 2]\<close>.
\<close>

theorem evolucion_index_counterexample:
  "evolucion (una_celda 2) [0, 2] 1 [[1]] (dado 0 0) = Inl IndexError"
  by (simp add: evolucion_def una_celda_def dado_def var_termo_def py_range_def var_termo_body_def
      pos_vecinos_eq np_get2_def np_set2_def np_index_def np_ones_def np_set_def
      py_slice_from_def evolucion_body_def cambio_espin_def randint_def J_simulacion Let_def)

text \<open>
  C6, amended. On an \<open>L \<times> L\<close> lattice with \<open>cant_iter > 0\<close>. For every index sequence
  whose entries after the first all lie in \<open>[-cant_iter, cant_iter)\<close>, every write is
  within bounds and \<open>evolucion\<close> returns two arrays of length \<open>cant_iter\<close>; they are the
  arrays of ones, with \<open>(E_0, M_0)\<close> at position \<open>0\<close>, into which the pair of each step
  was written, in order, at the position that the step's literal index designates.
  For every index sequence with an entry after the first outside that range, the write
  at the first such entry raises \<open>IndexError\<close> and \<open>evolucion\<close> returns nothing.
\<close>

theorem evolucion_safe:
  assumes "shape L s" and "long_lado c = int L" and "0 < L" and "N c \<noteq> 0"
    and "0 < cant_iter c"
  shows "((\<forall>i \<in> set (py_slice_from tiempo 1). - cant_iter c \<le> i \<and> i < cant_iter c) \<longrightarrow>
     (\<exists>E_0 M_0 ws array_E array_M s' g'.
       var_termo c s = Inr (E_0, M_0) \<and>
       escrituras c beta (py_slice_from tiempo 1) s g = Inr (ws, s', g') \<and>
       map fst ws = py_slice_from tiempo 1 \<and>
       evolucion c tiempo beta s g = Inr ((array_E, array_M), s', g') \<and>
       length array_E = nat (cant_iter c) \<and> length array_M = nat (cant_iter c) \<and>
       array_E = anotar (map (\<lambda>(i, E, M). (i, E)) ws) ((replicate (nat (cant_iter c)) 1)[0 := E_0]) \<and>
       array_M = anotar (map (\<lambda>(i, E, M). (i, M)) ws) ((replicate (nat (cant_iter c)) 1)[0 := M_0]))) \<and>
   ((\<exists>i \<in> set (py_slice_from tiempo 1). \<not> (- cant_iter c \<le> i \<and> i < cant_iter c)) \<longrightarrow>
      evolucion c tiempo beta s g = Inl IndexError)"
proof -
  let ?n = "nat (cant_iter c)"
  let ?E = "energia (J c) L s" and ?M = "suma_espines L s / real_of_int (N c)"
  have v: "var_termo c s = Inr (?E, ?M)" by (rule var_termo_shape[OF assms(1,2,4)])
  have inside: "\<exists>E_0 M_0 ws array_E array_M s' g'.
       var_termo c s = Inr (E_0, M_0) \<and>
       escrituras c beta (py_slice_from tiempo 1) s g = Inr (ws, s', g') \<and>
       map fst ws = py_slice_from tiempo 1 \<and>
       evolucion c tiempo beta s g = Inr ((array_E, array_M), s', g') \<and>
       length array_E = nat (cant_iter c) \<and> length array_M = nat (cant_iter c) \<and>
       array_E = anotar (map (\<lambda>(i, E, M). (i, E)) ws) ((replicate (nat (cant_iter c)) 1)[0 := E_0]) \<and>
       array_M = anotar (map (\<lambda>(i, E, M). (i, M)) ws) ((replicate (nat (cant_iter c)) 1)[0 := M_0])"
    if a: "\<forall>i \<in> set (py_slice_from tiempo 1). - cant_iter c \<le> i \<and> i < cant_iter c"
  proof -
    have r: "\<forall>i \<in> set (py_slice_from tiempo 1). - int ?n \<le> i \<and> i < int ?n"
      using assms(5) a by simp
    from evolucion_loop[OF assms(2,3,4,1) _ _ r, of "(replicate ?n 1)[0 := ?E]" "(replicate ?n 1)[0 := ?M]" beta g]
    obtain ws s' g' where
      w: "escrituras c beta (py_slice_from tiempo 1) s g = Inr (ws, s', g')"
         "map fst ws = py_slice_from tiempo 1"
         "for_loop (py_slice_from tiempo 1) (evolucion_body c beta)
            (s, g, (replicate ?n 1)[0 := ?E], (replicate ?n 1)[0 := ?M]) =
          Inr (s', g', anotar (map (\<lambda>(i, E, M). (i, E)) ws) ((replicate ?n 1)[0 := ?E]),
                       anotar (map (\<lambda>(i, E, M). (i, M)) ws) ((replicate ?n 1)[0 := ?M]))"
      by auto
    have "evolucion c tiempo beta s g =
        Inr ((anotar (map (\<lambda>(i, E, M). (i, E)) ws) ((replicate ?n 1)[0 := ?E]),
              anotar (map (\<lambda>(i, E, M). (i, M)) ws) ((replicate ?n 1)[0 := ?M])), s', g')"
      using assms(5)
      by (simp add: evolucion_def v np_ones_def np_set_posicion posicion_def w(3))
    with v w(1,2) show ?thesis by (simp add: length_anotar)
  qed
  have outside: "evolucion c tiempo beta s g = Inl IndexError"
    if a: "\<exists>i \<in> set (py_slice_from tiempo 1). \<not> (- cant_iter c \<le> i \<and> i < cant_iter c)"
  proof -
    have r: "\<exists>i \<in> set (py_slice_from tiempo 1). \<not> (- int ?n \<le> i \<and> i < int ?n)"
      using assms(5) a by simp
    from evolucion_loop_out[OF assms(2,3,4,1) _ _ r, of "(replicate ?n 1)[0 := ?E]" "(replicate ?n 1)[0 := ?M]" beta g]
    have "for_loop (py_slice_from tiempo 1) (evolucion_body c beta)
            (s, g, (replicate ?n 1)[0 := ?E], (replicate ?n 1)[0 := ?M]) = Inl IndexError"
      by simp
    then show ?thesis
      using assms(5)
      by (simp add: evolucion_def v np_ones_def np_set_posicion posicion_def)
  qed
  from inside outside show ?thesis by blast
qed

theorem evolucion_safe_witness:
  "shape 1 [[1]] \<and> long_lado (una_celda 3) = int 1 \<and> N (una_celda 3) \<noteq> 0 \<and>
   0 < cant_iter (una_celda 3) \<and>
   list_all (\<lambda>i. - cant_iter (una_celda 3) \<le> i \<and> i < cant_iter (una_celda 3))
     (py_slice_from [0, - 1] 1) \<and>
   (\<exists>array_E array_M s' g'.
      evolucion (una_celda 3) [0, - 1] 1 [[1]] (dado 0 0) = Inr ((array_E, array_M), s', g') \<and>
      length array_E = 3 \<and> length array_M = 3) \<and>
   list_ex (\<lambda>i. \<not> (- cant_iter (una_celda 3) \<le> i \<and> i < cant_iter (una_celda 3)))
     (py_slice_from [0, 1, - 4, 2] 1) \<and>
   evolucion (una_celda 3) [0, 1, - 4, 2] 1 [[1]] (dado 0 0) = Inl IndexError"
  using evolucion_safe[of 1 "[[1]]" "una_celda 3" "[0, - 1]" 1 "dado 0 0"]
    evolucion_safe[of 1 "[[1]]" "una_celda 3" "[0, 1, - 4, 2]" 1 "dado 0 0"]
  by (simp add: shape_def una_celda_def py_slice_from_def) blast

text \<open>
  C10. Both output arrays start as \<open>np.ones(cant_iter)\<close>. When \<open>evolucion\<close> returns and no
  entry of \<open>tiempo_sim[1:]\<close> designates the position \<open>k\<close>, \<open>1 \<le> k < cant_iter\<close> (no
  entry is \<open>k\<close>, nor \<open>k - cant_iter\<close>, which NumPy counts from the end), both arrays hold
  \<open>1\<close> at position \<open>k\<close>.
\<close>

theorem evolucion_untouched:
  assumes "evolucion c tiempo beta s g = Inr ((array_E, array_M), s', g')"
    and "1 \<le> k" and "k < cant_iter c"
    and "\<forall>i \<in> set (py_slice_from tiempo 1). i \<noteq> k \<and> i + cant_iter c \<noteq> k"
  shows "array_E ! nat k = 1 \<and> array_M ! nat k = 1"
proof -
  let ?n = "nat (cant_iter c)"
  from assms(2,3) have n: "0 \<le> cant_iter c" "k < int ?n" "nat k < ?n" "nat k \<noteq> 0" by simp_all
  from assms(1) obtain E_0 M_0 s1 g1 where
    l: "for_loop (py_slice_from tiempo 1) (evolucion_body c beta)
          (s, g, (replicate ?n 1)[0 := E_0], (replicate ?n 1)[0 := M_0]) =
        Inr (s1, g1, array_E, array_M)"
    using n(1)
    by (auto simp: evolucion_def bind_err_eq_Inr np_ones_def dest!: np_set_Inr
        simp: posicion_def split: if_splits)
  have p: "\<forall>i \<in> set (py_slice_from tiempo 1). posicion ?n i \<noteq> nat k"
    using assms(4) posicion_neq[OF assms(2) n(2)] n(1) by auto
  from for_loop_untouched[OF l _ _ p]
  have "array_E ! nat k = (replicate ?n (1::real))[0 := E_0] ! nat k \<and>
        array_M ! nat k = (replicate ?n (1::real))[0 := M_0] ! nat k" by simp
  with n(3,4) show ?thesis by simp
qed

theorem evolucion_untouched_witness:
  "evolucion (una_celda 3) [0, 1] 1 [[1]] (dado 0 0) =
     Inr (([- 2, - 2, 1], [1, 1, 1]), [[- 1]], (dado 0 0)\<lparr>int_pos := 2\<rparr>) \<and>
   (1::int) \<le> 2 \<and> 2 < cant_iter (una_celda 3) \<and>
   list_all (\<lambda>i. i \<noteq> 2 \<and> i + cant_iter (una_celda 3) \<noteq> 2) (py_slice_from [0, 1] 1) \<and>
   [- 2, - 2, 1 :: real] ! nat 2 = 1 \<and> [1, 1, 1 :: real] ! nat 2 = 1"
  using evolucion_untouched[OF evolucion_una_celda, of 2]
  by (simp add: evolucion_una_celda cant_iter_una_celda py_slice_from_def)

subsection \<open>promedios\<close>

lemma sum_list_drop: "sum_list (drop k xs) = (\<Sum>i = k..<length xs. (xs ! i :: real))"
proof (cases "k \<le> length xs")
  case True
  have "sum_list (drop k xs) = (\<Sum>i = 0..<length xs - k. xs ! (k + i))"
    by (simp add: sum_list_sum_nth)
  also have "\<dots> = (\<Sum>i = k..<length xs. xs ! i)"
    using True sum.shift_bounds_nat_ivl[of "\<lambda>i. xs ! i" 0 k "length xs - k"]
    by (simp add: add.commute)
  finally show ?thesis .
next
  case False
  then show ?thesis by simp
qed

lemma py_slice_from_desde: "py_slice_from xs t = drop (desde (length xs) t) xs"
  by (simp add: py_slice_from_def desde_def)

lemma desde_less: "t < int n \<Longrightarrow> 0 \<le> t \<or> 0 < n \<Longrightarrow> desde n t < n"
  by (auto simp: desde_def max_def)

lemma np_mean_slice:
  assumes "t < int (length xs)" "0 \<le> t \<or> xs \<noteq> []"
  shows "np_mean (py_slice_from xs t) = Inr (media xs (desde (length xs) t))"
  using desde_less[OF assms(1)] assms(2)
  by (simp add: np_mean_def py_slice_from_desde sum_list_drop media_def)





subsection \<open>main\<close>

lemma arsinh_1_pos: "0 < arsinh (1::real)"
proof -
  have "1 < 1 + sqrt (2::real)" by simp
  then have "0 < ln (1 + sqrt (2::real))" by (rule ln_gt_zero)
  then show ?thesis by (simp add: arsinh_real_def)
qed

lemma T_critico_eq: "J c \<noteq> 0 \<Longrightarrow> T_critico c = Inr (1 / (arsinh 1 / (2 * J c)))"
  using arsinh_1_pos by (simp add: T_critico_def beta_critico_def)

lemma T_critico_nonzero: "J c \<noteq> 0 \<Longrightarrow> 1 / (arsinh 1 / (2 * J c)) \<noteq> (0::real)"
  using arsinh_1_pos by simp

lemma np_linspace_eq:
  "0 \<le> n \<Longrightarrow> np_linspace a b n =
     Inr (map (\<lambda>k. a + real k * ((b - a) / real_of_int (n - 1))) [0..<nat n])"
  by (simp add: np_linspace_def)

lemma linspace_pos:
  assumes "k < nat n"
  shows "0 < 0.01 + real k * ((3 - 0.01) / real_of_int (n - 1))"
proof -
  have p: "0 < (0.01::real)" by simp
  from assms have "0 \<le> real_of_int (n - 1)" by simp
  then have "0 \<le> real k * ((3 - 0.01) / real_of_int (n - 1))" by simp
  with p show ?thesis by (rule add_pos_nonneg)
qed

lemma length_mask_assign: "length m = length xs \<Longrightarrow> length (mask_assign xs m v) = length xs"
  by (simp add: mask_assign_def)

lemma gen_array_espines_shape:
  assumes "long_lado c = int L"
  shows "\<exists>s g'. gen_array_espines c g = Inr (s, g') \<and> shape L s"
proof -
  let ?s0 = "map (\<lambda>r. map (\<lambda>q. unif_draws g (unif_pos g + r * L + q)) [0..<L]) [0..<L]"
  let ?ii = "map (map (\<lambda>x. x < 0.5)) ?s0"
  let ?s1 = "map (\<lambda>(row, m). mask_assign row m (- 1)) (zip ?s0 ?ii)"
  let ?s2 = "map (\<lambda>(row, m). mask_assign row (map Not m) 1) (zip ?s1 ?ii)"
  have u: "uniform_array (long_lado c) (long_lado c) g =
      Inr (?s0, g\<lparr>unif_pos := unif_pos g + L * L\<rparr>)"
    by (simp add: uniform_array_def assms)
  have g: "gen_array_espines c g = Inr (?s2, g\<lparr>unif_pos := unif_pos g + L * L\<rparr>)"
    unfolding gen_array_espines_def u by (simp add: Let_def)
  have r1: "length (?s1 ! r) = L" if "r < L" for r
    using that by (simp add: length_mask_assign)
  have "length (?s2 ! r) = L" if "r < L" for r
  proof -
    have "?s2 ! r = mask_assign (?s1 ! r) (map Not (?ii ! r)) 1"
      using that by simp
    moreover have "length (map Not (?ii ! r)) = length (?s1 ! r)"
      using that r1[OF that] by simp
    ultimately show ?thesis using r1[OF that] by (simp only: length_mask_assign)
  qed
  then have "shape L ?s2" by (simp add: shape_def list_all_length)
  with g show ?thesis by blast
qed

lemma evolucion_returns:
  assumes "shape L s" and "long_lado c = int L" and "0 < L" and "N c \<noteq> 0"
    and "0 < cant_iter c"
    and "\<forall>i \<in> set (py_slice_from tiempo 1). - cant_iter c \<le> i \<and> i < cant_iter c"
  shows "\<exists>array_E array_M s' g'.
     evolucion c tiempo beta s g = Inr ((array_E, array_M), s', g') \<and>
     length array_E = nat (cant_iter c) \<and> length array_M = nat (cant_iter c)"
proof -
  let ?n = "nat (cant_iter c)"
  let ?E = "energia (J c) L s" and ?M = "suma_espines L s / real_of_int (N c)"
  have v: "var_termo c s = Inr (?E, ?M)" by (rule var_termo_shape[OF assms(1,2,4)])
  have r: "\<forall>i \<in> set (py_slice_from tiempo 1). - int ?n \<le> i \<and> i < int ?n"
    using assms(5,6) by simp
  from evolucion_loop[OF assms(2,3,4,1) _ _ r, of "(replicate ?n 1)[0 := ?E]" "(replicate ?n 1)[0 := ?M]" beta g]
  obtain ws s' g' where
    w: "for_loop (py_slice_from tiempo 1) (evolucion_body c beta)
          (s, g, (replicate ?n 1)[0 := ?E], (replicate ?n 1)[0 := ?M]) =
        Inr (s', g', anotar (map (\<lambda>(i, E, M). (i, E)) ws) ((replicate ?n 1)[0 := ?E]),
                     anotar (map (\<lambda>(i, E, M). (i, M)) ws) ((replicate ?n 1)[0 := ?M]))"
    by auto
  have "evolucion c tiempo beta s g =
      Inr ((anotar (map (\<lambda>(i, E, M). (i, E)) ws) ((replicate ?n 1)[0 := ?E]),
            anotar (map (\<lambda>(i, E, M). (i, M)) ws) ((replicate ?n 1)[0 := ?M])), s', g')"
    using assms(5)
    by (simp add: evolucion_def v np_ones_def np_set_posicion posicion_def w)
  then show ?thesis by (simp add: length_anotar)
qed

lemma promedios_returns:
  assumes "t < int (length array_E)" "t < int (length array_M)" "array_E \<noteq> []" "array_M \<noteq> []"
  shows "\<exists>EM. promedios array_E array_M t = Inr EM"
  using assms by (simp add: promedios_def np_mean_slice)

lemma muestra_returns:
  assumes "long_lado c = int L" and "0 < L" and "N c \<noteq> 0" and "0 < cant_iter c"
    and "\<forall>i \<in> set (py_slice_from (tiempo_sim c) 1). - cant_iter c \<le> i \<and> i < cant_iter c"
    and "t_estable c < cant_iter c"
  shows "\<exists>EM g'. muestra c beta g = Inr (EM, g')"
proof -
  from gen_array_espines_shape[OF assms(1), of g]
  obtain s g1 where gen: "gen_array_espines c g = Inr (s, g1)" and s: "shape L s" by blast
  from evolucion_returns[OF s assms(1,2,3,4,5), of beta g1]
  obtain aE aM s' g2 where ev: "evolucion c (tiempo_sim c) beta s g1 = Inr ((aE, aM), s', g2)"
    and len: "length aE = nat (cant_iter c)" "length aM = nat (cant_iter c)" by blast
  from len assms(4,6) have "t_estable c < int (length aE)" "t_estable c < int (length aM)"
    "aE \<noteq> []" "aM \<noteq> []" by auto
  from promedios_returns[OF this]
  obtain EM where "promedios aE aM (t_estable c) = Inr EM" by blast
  then show ?thesis by (simp add: muestra_def gen ev)
qed

lemma muestras_returns:
  assumes "long_lado c = int L" and "0 < L" and "N c \<noteq> 0" and "0 < cant_iter c"
    and "\<forall>i \<in> set (py_slice_from (tiempo_sim c) 1). - cant_iter c \<le> i \<and> i < cant_iter c"
    and "t_estable c < cant_iter c"
  shows "\<exists>EMs g'. muestras c betas g = Inr (EMs, g') \<and> length EMs = length betas"
proof (induction betas arbitrary: g)
  case Nil
  show ?case by simp
next
  case (Cons beta betas)
  from muestra_returns[OF assms, of beta g]
  obtain EM g1 where m: "muestra c beta g = Inr (EM, g1)" by blast
  from Cons.IH[of g1] obtain EMs g' where "muestras c betas g1 = Inr (EMs, g')"
    "length EMs = length betas" by blast
  with m show ?case by simp
qed

lemma np_get_nat: "k < length xs \<Longrightarrow> np_get xs (int k) = Inr (xs ! k)"
  by (simp add: np_get_def np_index_nat)

lemma np_set_nat: "k < length xs \<Longrightarrow> np_set xs (int k) v = Inr (xs[k := v])"
  by (simp add: np_set_def np_index_nat)

lemma main_body_eq:
  assumes "muestra c (B ! k) g = Inr ((E, M), g1)"
    and "k < n" "length B = n" "length T = n" "length aE = n" "length aM = n"
  shows "\<exists>j1 gr1. main_body c T B (int k) (g, aE, aM, j, gr) =
           Inr (g1, aE[k := E], aM[k := M], j1, gr1)"
proof -
  from assms(1) obtain s g' array_E array_M s' where
    gen: "gen_array_espines c g = Inr (s, g')" and
    ev: "evolucion c (tiempo_sim c) (B ! k) s g' = Inr ((array_E, array_M), s', g1)" and
    pr: "promedios array_E array_M (t_estable c) = Inr (E, M)"
    by (auto simp: muestra_def bind_err_eq_Inr)
  show ?thesis
    using assms(2-)
    by (simp add: main_body_def np_get_nat np_set_nat gen ev pr)
qed

lemma main_loop:
  "length B = n \<Longrightarrow> length T = n \<Longrightarrow> length aE = n \<Longrightarrow> length aM = n \<Longrightarrow> k \<le> n \<Longrightarrow>
   muestras c (drop k B) g = Inr (EMs, g') \<Longrightarrow>
   \<exists>j' gr'. for_loop (map int [k..<n]) (main_body c T B) (g, aE, aM, j, gr) =
     Inr (g', take k aE @ map fst EMs, take k aM @ map snd EMs, j', gr')"
proof (induction "n - k" arbitrary: k g aE aM j gr EMs)
  case 0
  then show ?case by simp
next
  case (Suc d)
  from Suc.hyps(2) have k: "k < n" by simp
  with Suc.prems(1) have d: "drop k B = B ! k # drop (Suc k) B"
    by (simp add: Cons_nth_drop_Suc)
  from Suc.prems(6)[unfolded d] obtain E M g1 EMs' where
    m: "muestra c (B ! k) g = Inr ((E, M), g1)" and
    ms: "muestras c (drop (Suc k) B) g1 = Inr (EMs', g')" and
    e: "EMs = (E, M) # EMs'"
    by (auto simp: bind_err_eq_Inr)
  from main_body_eq[OF m k Suc.prems(1-4), of j gr]
  obtain j1 gr1 where
    b: "main_body c T B (int k) (g, aE, aM, j, gr) = Inr (g1, aE[k := E], aM[k := M], j1, gr1)"
    by blast
  have "d = n - Suc k" using Suc.hyps(2) by simp
  from Suc.hyps(1)[OF this Suc.prems(1,2) _ _ _ ms, of "aE[k := E]" "aM[k := M]" j1 gr1]
  obtain j' gr' where
    r: "for_loop (map int [Suc k..<n]) (main_body c T B) (g1, aE[k := E], aM[k := M], j1, gr1) =
        Inr (g', take (Suc k) (aE[k := E]) @ map fst EMs', take (Suc k) (aM[k := M]) @ map snd EMs',
             j', gr')"
    using Suc.prems(3,4) k by auto
  have t: "take (Suc k) (aE[k := E]) = take k aE @ [E]" "take (Suc k) (aM[k := M]) = take k aM @ [M]"
    using k Suc.prems(3,4) by (simp_all add: take_Suc_conv_app_nth)
  have "for_loop (map int [k..<n]) (main_body c T B) (g, aE, aM, j, gr) =
      Inr (g', take k aE @ map fst EMs, take k aM @ map snd EMs, j', gr')"
    using k by (simp add: upt_conv_Cons b r t e)
  then show ?case by blast
qed

lemma barrido_simps:
  "long_lado barrido = 1" "N barrido = 1" "J barrido = 1" "cant_iter barrido = 2"
  "cant_Temp barrido = 2" "t_estable barrido = 1" "tiempo_sim barrido = [0, 1]"
  by (simp_all add: barrido_def J_simulacion py_range_def numeral_2_eq_2)

lemma muestra_barrido:
  assumes "unif_draws g = (\<lambda>_. 0)" "int_draws g = (\<lambda>_. 0)"
  shows "muestra barrido beta g =
     Inr ((- 2, - 1), g\<lparr>unif_pos := Suc (unif_pos g), int_pos := Suc (Suc (int_pos g))\<rparr>)"
  using assms
  by (simp add: muestra_def gen_array_espines_def uniform_array_def mask_assign_def
      evolucion_def barrido_simps var_termo_def py_range_def var_termo_body_def
      pos_vecinos_eq np_get2_def np_set2_def np_index_def np_ones_def np_set_def
      py_slice_from_def evolucion_body_def cambio_espin_def randint_def promedios_def np_mean_def
      Let_def numeral_2_eq_2)

lemma muestras_barrido:
  "muestras barrido [b1, b2] (dado 0 0) =
     Inr ([(- 2, - 1), (- 2, - 1)], (dado 0 0)\<lparr>unif_pos := 2, int_pos := 4\<rparr>)"
  by (simp add: muestra_barrido dado_def numeral_eq_Suc)

text \<open>
  C8. With \<open>cant_Temp \<ge> 0\<close> samples, \<open>J \<noteq> 0\<close>, an \<open>L \<times> L\<close> lattice, \<open>cant_iter > 0\<close>, time
  indices within the output arrays and \<open>t_estable < cant_iter\<close>, \<open>main\<close> runs to its end.
  The temperatures are \<open>cant_Temp\<close> values linearly spaced from \<open>0.01\<close> to \<open>3\<close>, times the
  critical temperature, and \<open>beta = 1 / T\<close> for each. The two arrays of averages have
  exactly \<open>cant_Temp\<close> entries: the entry at index \<open>i\<close> is the pair of averages of the
  \<open>i\<close>-th sample, each sample being a fresh lattice, the Evolution Driver on it and
  \<open>promedios\<close>, the samples taken in increasing order of index from one random source.
\<close>

theorem main_sweep:
  assumes "long_lado c = int L" and "0 < L" and "N c \<noteq> 0" and "J c \<noteq> 0"
    and "0 < cant_iter c" and "0 \<le> cant_Temp c"
    and "\<forall>i \<in> set (py_slice_from (tiempo_sim c) 1). - cant_iter c \<le> i \<and> i < cant_iter c"
    and "t_estable c < cant_iter c"
  shows "\<exists>array_T array_betas EMs graficas g'.
     main c g = Inr (array_T, array_betas, map fst EMs, map snd EMs, graficas, g') \<and>
     muestras c array_betas g = Inr (EMs, g') \<and>
     length array_T = nat (cant_Temp c) \<and> length array_betas = nat (cant_Temp c) \<and>
     length EMs = nat (cant_Temp c) \<and>
     (\<forall>i < nat (cant_Temp c).
        array_T ! i = (0.01 + real i * ((3 - 0.01) / real_of_int (cant_Temp c - 1))) *
                      (1 / (arsinh 1 / (2 * J c))) \<and>
        array_betas ! i = 1 / array_T ! i)"
proof -
  let ?n = "nat (cant_Temp c)"
  let ?Tc = "1 / (arsinh 1 / (2 * J c)) :: real"
  let ?xs = "map (\<lambda>k. 0.01 + real k * ((3 - 0.01) / real_of_int (cant_Temp c - 1))) [0..<?n]"
  let ?T = "map (\<lambda>x. x * ?Tc) ?xs"
  let ?B = "map (\<lambda>T. 1 / T) ?T"
  have lin: "np_linspace 0.01 3 (cant_Temp c) = Inr ?xs"
    by (rule np_linspace_eq[OF assms(6)])
  have nz: "0 \<notin> set ?T"
  proof
    assume "0 \<in> set ?T"
    then obtain k where k: "k < ?n" and
      z: "(0.01 + real k * ((3 - 0.01) / real_of_int (cant_Temp c - 1))) * ?Tc = 0"
      by auto
    from z have "0.01 + real k * ((3 - 0.01) / real_of_int (cant_Temp c - 1)) = 0 \<or> ?Tc = 0"
      by (simp only: mult_eq_0_iff)
    moreover from linspace_pos[OF k]
    have "0.01 + real k * ((3 - 0.01) / real_of_int (cant_Temp c - 1)) \<noteq> 0"
      by (rule less_imp_neq[THEN not_sym])
    ultimately show False using T_critico_nonzero[OF assms(4)] by blast
  qed
  from muestras_returns[OF assms(1,2,3,5,7,8), of ?B g]
  obtain EMs g' where ms: "muestras c ?B g = Inr (EMs, g')" and len: "length EMs = ?n"
    by auto
  have "muestras c (drop 0 ?B) g = Inr (EMs, g')" using ms by simp
  from main_loop[OF _ _ _ _ _ this, of ?n ?T "replicate ?n 0" "replicate ?n 0" 0 "[]"]
  obtain j' gr' where
    l: "for_loop (map int [0..<?n]) (main_body c ?T ?B) (g, replicate ?n 0, replicate ?n 0, 0, []) =
        Inr (g', map fst EMs, map snd EMs, j', gr')"
    by auto
  have r: "py_range 0 (cant_Temp c) = map int [0..<?n]"
    by (simp add: py_range_def)
  have m: "main c g = Inr (?T, ?B, map fst EMs, map snd EMs, gr', g')"
    using nz assms(6)
    by (simp only: main_def T_critico_eq[OF assms(4)] lin bind_err_Inr Let_def if_False
        np_zeros_def not_less[symmetric] r l prod.case)
  show ?thesis
    using m ms len by (intro exI[of _ ?T] exI[of _ ?B] exI[of _ EMs] exI[of _ gr'] exI[of _ g']) simp
qed

theorem main_sweep_witness:
  "long_lado barrido = int 1 \<and> N barrido \<noteq> 0 \<and> J barrido \<noteq> 0 \<and> 0 < cant_iter barrido \<and>
   0 \<le> cant_Temp barrido \<and>
   list_all (\<lambda>i. - cant_iter barrido \<le> i \<and> i < cant_iter barrido)
     (py_slice_from (tiempo_sim barrido) 1) \<and>
   t_estable barrido < cant_iter barrido \<and>
   (\<exists>array_T array_betas graficas g'.
      main barrido (dado 0 0) = Inr (array_T, array_betas, [- 2, - 2], [- 1, - 1], graficas, g') \<and>
      length array_T = 2 \<and> length array_betas = 2)"
proof -
  have h: "long_lado barrido = int 1" "0 < (1::nat)" "N barrido \<noteq> 0" "J barrido \<noteq> 0"
    "0 < cant_iter barrido" "0 \<le> cant_Temp barrido"
    "\<forall>i \<in> set (py_slice_from (tiempo_sim barrido) 1). - cant_iter barrido \<le> i \<and> i < cant_iter barrido"
    "t_estable barrido < cant_iter barrido"
    by (simp_all add: barrido_simps py_slice_from_def)
  from main_sweep[OF h, of "dado 0 0"]
  obtain array_T array_betas EMs graficas g' where
    m: "main barrido (dado 0 0) = Inr (array_T, array_betas, map fst EMs, map snd EMs, graficas, g')"
    and ms: "muestras barrido array_betas (dado 0 0) = Inr (EMs, g')"
    and len: "length array_T = nat (cant_Temp barrido)" "length array_betas = nat (cant_Temp barrido)"
    by blast
  from len(2) obtain b1 b2 where b: "array_betas = [b1, b2]"
    by (auto simp: barrido_simps numeral_2_eq_2 length_Suc_conv)
  from ms[unfolded b muestras_barrido] have "EMs = [(- 2, - 1), (- 2, - 1)]"
    by simp
  with m len h show ?thesis
    by (simp add: barrido_simps list_all_iff)
qed

end
